theory Spec2Isabelle
  imports Complex_Main "HOL-Library.Multiset"
begin

section \<open>Values of the decoded rows and of the summary\<close>

text \<open>
  The functions of \<^verbatim>\<open>src/lib/data-processing.ts\<close> receive the rows that
  \<^verbatim>\<open>parseCsvFile\<close> resolves to (\<^verbatim>\<open>results.data as T[]\<close>): plain objects
  whose fields hold either a number (a cell of a numeric column that \<^verbatim>\<open>parseFloat\<close>
  read) or the cell's text. The interfaces \<^verbatim>\<open>SalesData\<close>, \<^verbatim>\<open>InventoryData\<close>
  and \<^verbatim>\<open>ReviewData\<close> are erased at run time, so a row is modelled as what it is: a
  finite map from field names to cells, a missing field being absent from the map.

  A number is a real. The result of an addition or a division is the exact result
  rounded by the engine (\<open>RoundNumber\<close> below, a parameter), as IEEE doubles do;
  overflow and the infinities are outside the model. \<open>NaN\<close> is a value of its own; it
  only arises from arithmetic on text. \<open>Inherited k\<close> is the member that a plain
  object inherits from \<^verbatim>\<open>Object.prototype\<close> under the key \<open>k\<close>.
\<close>

datatype cell = CNum real | CStr string

type_synonym row = "string \<rightharpoonup> cell"

type_synonym SalesData = row
type_synonym InventoryData = row
type_synonym ReviewData = row

datatype jsval = Undefined | Num real | NaN | Str string | Inherited string

datatype error = TypeError

text \<open>
  What the language's engine contributes is a parameter of the model: the decimal
  rendering of a number, the numeric value of a non-empty string (\<open>None\<close> is NaN),
  \<^verbatim>\<open>parseFloat\<close> (\<open>None\<close> is NaN), the double nearest to an exact arithmetic
  result, and the text that a member of \<^verbatim>\<open>Object.prototype\<close> converts to.
\<close>

record ecma =
  NumberToString :: "real \<Rightarrow> string"
  StringToNumber :: "string \<Rightarrow> real option"
  parseFloat :: "string \<Rightarrow> real option"
  RoundNumber :: "real \<Rightarrow> real"
  PrototypeMemberText :: "string \<Rightarrow> string"

text \<open>
  The number an arithmetic operation returns for the exact result \<open>z\<close>. An integer of
  magnitude at most \<open>2\<^sup>5\<^sup>3\<close> is a double, so it is returned as it is; any other result
  is rounded by the engine.
\<close>

definition numberResult :: "ecma \<Rightarrow> real \<Rightarrow> real" where
  "numberResult E z =
     (if of_int \<lfloor>z\<rfloor> = z \<and> \<bar>z\<bar> \<le> 9007199254740992 then z else RoundNumber E z)"

text \<open>Property access \<^verbatim>\<open>row.k\<close>: a missing field reads as \<^verbatim>\<open>undefined\<close>.\<close>

definition getField :: "row \<Rightarrow> string \<Rightarrow> jsval" where
  "getField r k = (case r k of None \<Rightarrow> Undefined | Some (CNum x) \<Rightarrow> Num x | Some (CStr s) \<Rightarrow> Str s)"

fun ToBoolean :: "jsval \<Rightarrow> bool" where
  "ToBoolean Undefined = False"
| "ToBoolean (Num x) = (x \<noteq> 0)"
| "ToBoolean NaN = False"
| "ToBoolean (Str s) = (s \<noteq> [])"
| "ToBoolean (Inherited k) = True"

text \<open>\<^verbatim>\<open>a || b\<close>\<close>

definition jsOr :: "jsval \<Rightarrow> jsval \<Rightarrow> jsval" where
  "jsOr a b = (if ToBoolean a then a else b)"

text \<open>An object converts to a primitive value through its text.\<close>

fun ToPrimitive :: "ecma \<Rightarrow> jsval \<Rightarrow> jsval" where
  "ToPrimitive E (Inherited k) = Str (PrototypeMemberText E k)"
| "ToPrimitive E v = v"

fun ToNumber :: "ecma \<Rightarrow> jsval \<Rightarrow> real option" where
  "ToNumber E Undefined = None"
| "ToNumber E (Num x) = Some x"
| "ToNumber E NaN = None"
| "ToNumber E (Str s) = (if s = [] then Some 0 else StringToNumber E s)"
| "ToNumber E (Inherited k) =
     (if PrototypeMemberText E k = [] then Some 0
      else StringToNumber E (PrototypeMemberText E k))"

fun ToString :: "ecma \<Rightarrow> jsval \<Rightarrow> string" where
  "ToString E Undefined = ''undefined''"
| "ToString E (Num x) = NumberToString E x"
| "ToString E NaN = ''NaN''"
| "ToString E (Str s) = s"
| "ToString E (Inherited k) = PrototypeMemberText E k"

definition ofNumber :: "real option \<Rightarrow> jsval" where
  "ofNumber n = (case n of None \<Rightarrow> NaN | Some x \<Rightarrow> Num x)"

fun isString :: "jsval \<Rightarrow> bool" where
  "isString (Str s) = True"
| "isString v = False"

text \<open>
  \<^verbatim>\<open>a + b\<close>: concatenation as soon as one operand, as a primitive value, is a
  string.
\<close>

definition jsAdd :: "ecma \<Rightarrow> jsval \<Rightarrow> jsval \<Rightarrow> jsval" where
  "jsAdd E a b =
     (if isString (ToPrimitive E a) \<or> isString (ToPrimitive E b)
      then Str (ToString E a @ ToString E b)
      else case (ToNumber E a, ToNumber E b) of
             (Some x, Some y) \<Rightarrow> Num (numberResult E (x + y))
           | _ \<Rightarrow> NaN)"

text \<open>
  \<^verbatim>\<open>a - b\<close>. The source subtracts in its two sort comparators only, which use the
  sign of the difference; rounding the difference of two doubles does not change its
  sign, so the exact difference stands for it.
\<close>

definition jsSub :: "ecma \<Rightarrow> jsval \<Rightarrow> jsval \<Rightarrow> jsval" where
  "jsSub E a b =
     (case (ToNumber E a, ToNumber E b) of
        (Some x, Some y) \<Rightarrow> Num (x - y)
      | _ \<Rightarrow> NaN)"

text \<open>
  \<^verbatim>\<open>a / n\<close> for a length \<open>n\<close>. Both divisions of the source are guarded by
  \<^verbatim>\<open>length > 0\<close>; for \<open>n = 0\<close> the quotient would be an infinity or NaN.
\<close>

definition jsDiv :: "ecma \<Rightarrow> jsval \<Rightarrow> nat \<Rightarrow> jsval" where
  "jsDiv E a n =
     (case ToNumber E a of
        Some x \<Rightarrow> (if n = 0 then NaN else Num (numberResult E (x / real n)))
      | None \<Rightarrow> NaN)"

text \<open>Comparison of strings by code units.\<close>

fun strLess :: "string \<Rightarrow> string \<Rightarrow> bool" where
  "strLess [] [] = False"
| "strLess [] (y # ys) = True"
| "strLess (x # xs) [] = False"
| "strLess (x # xs) (y # ys) =
     ((of_char x :: nat) < of_char y \<or> (x = y \<and> strLess xs ys))"

text \<open>\<^verbatim>\<open>a < b\<close>: false as soon as one side converts to NaN.\<close>

definition jsLess :: "ecma \<Rightarrow> jsval \<Rightarrow> jsval \<Rightarrow> bool" where
  "jsLess E a b =
     (case (ToPrimitive E a, ToPrimitive E b) of
        (Str s, Str t) \<Rightarrow> strLess s t
      | _ \<Rightarrow> (case (ToNumber E a, ToNumber E b) of
                 (Some x, Some y) \<Rightarrow> x < y
               | _ \<Rightarrow> False))"

section \<open>Arrays and objects\<close>

text \<open>
  \<^verbatim>\<open>Array.prototype.sort(cmp)\<close> is stable, and a comparator result that is NaN counts
  as \<open>0\<close>. The model is the stable insertion sort: an element moves behind another one
  only where the comparator is positive. For a consistent comparator every conforming
  sort returns this list. Where the comparator is not consistent, which takes a NaN
  result and so a text among the amounts or the stocks compared, the language leaves the
  order to the engine, and the list of the model need not be the engine's; the general
  statements below about an order are made for numbers only.
\<close>

fun positive :: "jsval \<Rightarrow> bool" where
  "positive (Num x) = (0 < x)"
| "positive v = False"

fun insertBy :: "('a \<Rightarrow> 'a \<Rightarrow> jsval) \<Rightarrow> 'a \<Rightarrow> 'a list \<Rightarrow> 'a list" where
  "insertBy cmp x [] = [x]"
| "insertBy cmp x (y # ys) =
     (if positive (cmp x y) then y # insertBy cmp x ys else x # y # ys)"

definition sortBy :: "('a \<Rightarrow> 'a \<Rightarrow> jsval) \<Rightarrow> 'a list \<Rightarrow> 'a list" where
  "sortBy cmp xs = foldr (insertBy cmp) xs []"

text \<open>
  The accumulator \<^verbatim>\<open>{} as Record<string, number>\<close>: its own properties in creation
  order. For a key it does not own, \<^verbatim>\<open>acc[k]\<close> reads the member it inherits from
  \<^verbatim>\<open>Object.prototype\<close> when \<open>k\<close> names one (\<open>objectPrototypeKeys\<close>), and
  \<^verbatim>\<open>undefined\<close> otherwise. An assignment creates or updates an own property, except
  under the key \<^verbatim>\<open>__proto__\<close>: there it runs the inherited setter, which ignores a
  value that is no object, and the values assigned here are numbers and strings.
\<close>

type_synonym obj = "(string \<times> jsval) list"

definition objectPrototypeKeys :: "string list" where
  "objectPrototypeKeys =
     [''constructor'', ''__proto__'', ''hasOwnProperty'', ''isPrototypeOf'',
      ''propertyIsEnumerable'', ''toLocaleString'', ''toString'', ''valueOf'',
      ''__defineGetter__'', ''__defineSetter__'', ''__lookupGetter__'', ''__lookupSetter__'']"

definition objGet :: "obj \<Rightarrow> string \<Rightarrow> jsval" where
  "objGet acc k =
     (case map_of acc k of
        Some v \<Rightarrow> v
      | None \<Rightarrow> (if k \<in> set objectPrototypeKeys then Inherited k else Undefined))"

fun objUpdate :: "obj \<Rightarrow> string \<Rightarrow> jsval \<Rightarrow> obj" where
  "objUpdate [] k v = [(k, v)]"
| "objUpdate ((k', v') # rest) k v =
     (if k' = k then (k, v) # rest else (k', v') # objUpdate rest k v)"

definition objSet :: "obj \<Rightarrow> string \<Rightarrow> jsval \<Rightarrow> obj" where
  "objSet acc k v = (if k = ''__proto__'' then acc else objUpdate acc k v)"

text \<open>
  \<^verbatim>\<open>Object.entries\<close> lists the keys that are array indices first (canonical decimal
  numerals below \<open>2\<^sup>3\<^sup>2 - 1\<close>), in ascending numeric order, and then the other keys in
  creation order.
\<close>

definition isDigit :: "char \<Rightarrow> bool" where
  "isDigit c = (48 \<le> (of_char c :: nat) \<and> (of_char c :: nat) \<le> 57)"

definition digitsValue :: "string \<Rightarrow> nat" where
  "digitsValue s = foldl (\<lambda>n c. 10 * n + (of_char c - 48)) 0 s"

definition arrayIndex :: "string \<Rightarrow> nat option" where
  "arrayIndex s =
     (if s \<noteq> [] \<and> list_all isDigit s \<and> (s = ''0'' \<or> hd s \<noteq> CHR ''0'')
         \<and> digitsValue s < 4294967295
      then Some (digitsValue s) else None)"

definition objectEntries :: "obj \<Rightarrow> (string \<times> jsval) list" where
  "objectEntries acc =
     sort_key (\<lambda>(k, v). the (arrayIndex k)) (filter (\<lambda>(k, v). arrayIndex k \<noteq> None) acc)
     @ filter (\<lambda>(k, v). arrayIndex k = None) acc"

section \<open>The sentiment scorer\<close>

definition positiveWords :: "string list" where
  "positiveWords = [''good'', ''great'', ''excellent'', ''amazing'', ''love'', ''perfect'', ''wonderful'']"

definition negativeWords :: "string list" where
  "negativeWords = [''bad'', ''terrible'', ''awful'', ''hate'', ''worst'', ''horrible'', ''disappointing'']"

text \<open>
  Strings are byte strings. \<^verbatim>\<open>toLowerCase\<close> maps the letters \<^verbatim>\<open>A\<close> to \<^verbatim>\<open>Z\<close> to
  \<^verbatim>\<open>a\<close> to \<^verbatim>\<open>z\<close> and leaves every other byte as it is.
\<close>

definition toLowerChar :: "char \<Rightarrow> char" where
  "toLowerChar c =
     (case map_of (zip ''ABCDEFGHIJKLMNOPQRSTUVWXYZ'' ''abcdefghijklmnopqrstuvwxyz'') c of
        Some l \<Rightarrow> l
      | None \<Rightarrow> c)"

definition toLowerCase :: "string \<Rightarrow> string" where
  "toLowerCase s = map toLowerChar s"

fun isPrefixOf :: "string \<Rightarrow> string \<Rightarrow> bool" where
  "isPrefixOf [] t = True"
| "isPrefixOf (c # w) [] = False"
| "isPrefixOf (c # w) (d # t) = (c = d \<and> isPrefixOf w t)"

text \<open>\<^verbatim>\<open>text.includes(word)\<close>\<close>

fun js_includes :: "string \<Rightarrow> string \<Rightarrow> bool" where
  "js_includes [] word = (word = [])"
| "js_includes (c # t) word = (isPrefixOf word (c # t) \<or> js_includes t word)"

definition reviewDelta :: "string \<Rightarrow> int" where
  "reviewDelta t =
     (let positiveCount = length (filter (js_includes t) positiveWords);
          negativeCount = length (filter (js_includes t) negativeWords)
      in int positiveCount - int negativeCount)"

text \<open>
  The \<^verbatim>\<open>forEach\<close> over the reviews. \<^verbatim>\<open>review.Review.toLowerCase()\<close> throws a
  \<^verbatim>\<open>TypeError\<close> when the field is missing (\<^verbatim>\<open>undefined\<close> has no properties) and
  when it holds a number (a number has no method of that name).
\<close>

fun sentimentLoop :: "int \<Rightarrow> ReviewData list \<Rightarrow> error + int" where
  "sentimentLoop sentimentScore [] = Inr sentimentScore"
| "sentimentLoop sentimentScore (review # rest) =
     (case getField review ''Review'' of
        Str s \<Rightarrow> sentimentLoop (sentimentScore + reviewDelta (toLowerCase s)) rest
      | _ \<Rightarrow> Inl TypeError)"

section \<open>The aggregation engine\<close>

record BusinessSummary =
  totalRevenue :: jsval
  totalOrders :: nat
  averageOrderValue :: jsval
  topProducts :: "(string \<times> jsval) list"
  lowStockItems :: "(jsval \<times> jsval) list"
  averageRating :: jsval
  sentimentScore :: real

definition sumField :: "ecma \<Rightarrow> string \<Rightarrow> row list \<Rightarrow> jsval" where
  "sumField E k rows =
     foldl (\<lambda>s r. jsAdd E s (jsOr (getField r k) (Num 0))) (Num 0) rows"

definition productRevenue :: "ecma \<Rightarrow> SalesData list \<Rightarrow> obj" where
  "productRevenue E salesData =
     foldl (\<lambda>acc sale.
              let product = ToString E (getField sale ''Product'')
              in objSet acc product
                   (jsAdd E (jsOr (objGet acc product) (Num 0))
                            (jsOr (getField sale ''Amount'') (Num 0))))
           [] salesData"

definition computeTopProducts :: "ecma \<Rightarrow> SalesData list \<Rightarrow> (string \<times> jsval) list" where
  "computeTopProducts E salesData =
     map (\<lambda>(product, revenue). (product, revenue))
       (take 5
         (sortBy (\<lambda>(ka, a) (kb, b). jsSub E b a)
           (objectEntries (productRevenue E salesData))))"

definition isLowStock :: "ecma \<Rightarrow> InventoryData \<Rightarrow> bool" where
  "isLowStock E item =
     jsLess E (getField item ''Stock'') (jsOr (getField item ''Min_Alert'') (Num 5))"

definition computeLowStockItems :: "ecma \<Rightarrow> nat \<Rightarrow> InventoryData list \<Rightarrow> (jsval \<times> jsval) list" where
  "computeLowStockItems E cap inventoryData =
     map (\<lambda>item. (getField item ''Product'', getField item ''Stock''))
       (take cap
         (sortBy (\<lambda>a b. jsSub E (getField a ''Stock'') (getField b ''Stock''))
           (filter (isLowStock E) inventoryData)))"

definition generateBusinessSummary ::
  "ecma \<Rightarrow> SalesData list \<Rightarrow> InventoryData list \<Rightarrow> ReviewData list \<Rightarrow> error + BusinessSummary" where
  "generateBusinessSummary E salesData inventoryData reviewData =
     (let totalRevenue' = sumField E ''Amount'' salesData;
          totalOrders' = length salesData;
          averageOrderValue' = (if totalOrders' > 0 then jsDiv E totalRevenue' totalOrders' else Num 0);
          topProducts' = computeTopProducts E salesData;
          lowStockItems' = computeLowStockItems E 10 inventoryData;
          totalRating = sumField E ''Rating'' reviewData;
          averageRating' = (if length reviewData > 0 then jsDiv E totalRating (length reviewData) else Num 0)
      in case sentimentLoop 0 reviewData of
           Inl e \<Rightarrow> Inl e
         | Inr score \<Rightarrow>
             let normalizedSentiment =
                   (if length reviewData > 0
                    then max (- 1) (min 1 (numberResult E (real_of_int score / real (length reviewData))))
                    else 0)
             in Inr \<lparr> totalRevenue = totalRevenue',
                      totalOrders = totalOrders',
                      averageOrderValue = averageOrderValue',
                      topProducts = topProducts',
                      lowStockItems = lowStockItems',
                      averageRating = averageRating',
                      sentimentScore = normalizedSentiment \<rparr>)"

section \<open>The schema validators\<close>

record ValidationResult =
  valid :: bool
  errors :: "string list"

text \<open>
  \<^verbatim>\<open>requiredFields.forEach(field => { if (!(field in firstRow)) errors.push(...) })\<close>.
  None of the required names is a member of \<^verbatim>\<open>Object.prototype\<close>, so
  \<^verbatim>\<open>field in firstRow\<close> holds exactly for the row's own fields.
\<close>

definition checkRequiredFields :: "row \<Rightarrow> string list \<Rightarrow> string list \<Rightarrow> string list" where
  "checkRequiredFields firstRow requiredFields errs =
     foldl (\<lambda>es field. if firstRow field \<noteq> None then es
                         else es @ [''Missing required field: '' @ field])
           errs requiredFields"

text \<open>The decimal numeral of a natural number, as the template literal renders the row index.\<close>

fun natToString :: "nat \<Rightarrow> string" where
  "natToString n =
     (if n < 10 then [''0123456789'' ! n]
      else natToString (n div 10) @ [''0123456789'' ! (n mod 10)])"

declare natToString.simps [simp del]

text \<open>\<^verbatim>\<open>v && isNaN(Number(v))\<close>\<close>

definition notANumber :: "ecma \<Rightarrow> jsval \<Rightarrow> bool" where
  "notANumber E v = (ToBoolean v \<and> ToNumber E v = None)"

definition checkRowTypes :: "ecma \<Rightarrow> string list \<Rightarrow> row \<times> nat \<Rightarrow> string list" where
  "checkRowTypes E errs ri =
     (case ri of (r, index) \<Rightarrow>
        (let errs1 = (if notANumber E (getField r ''Quantity'')
                      then errs @ [''Row '' @ natToString (index + 1) @ '': Quantity must be a number'']
                      else errs)
         in if notANumber E (getField r ''Amount'')
            then errs1 @ [''Row '' @ natToString (index + 1) @ '': Amount must be a number'']
            else errs1))"

definition validateSalesData :: "ecma \<Rightarrow> row list \<Rightarrow> ValidationResult" where
  "validateSalesData E data =
     (case data of
        [] \<Rightarrow> \<lparr> valid = False, errors = [''No data found in the file''] \<rparr>
      | firstRow # _ \<Rightarrow>
          (let errs = checkRequiredFields firstRow [''Date'', ''Product'', ''Quantity'', ''Amount''] [];
               errs = foldl (checkRowTypes E) errs (zip (take 5 data) [0 ..< 5])
           in \<lparr> valid = (length errs = 0), errors = errs \<rparr>))"

definition validateInventoryData :: "row list \<Rightarrow> ValidationResult" where
  "validateInventoryData data =
     (case data of
        [] \<Rightarrow> \<lparr> valid = False, errors = [''No data found in the file''] \<rparr>
      | firstRow # _ \<Rightarrow>
          (let errs = checkRequiredFields firstRow [''Product'', ''Stock'', ''Price''] []
           in \<lparr> valid = (length errs = 0), errors = errs \<rparr>))"

definition validateReviewData :: "row list \<Rightarrow> ValidationResult" where
  "validateReviewData data =
     (case data of
        [] \<Rightarrow> \<lparr> valid = False, errors = [''No data found in the file''] \<rparr>
      | firstRow # _ \<Rightarrow>
          (let errs = checkRequiredFields firstRow [''Date'', ''Rating'', ''Review'', ''Product''] []
           in \<lparr> valid = (length errs = 0), errors = errs \<rparr>))"

section \<open>The decoder's coercion step\<close>

text \<open>
  The \<^verbatim>\<open>transform\<close> callback receives the cell's text and the column: its name when
  the file is read with a header row, its position otherwise.
\<close>

datatype header = FieldName string | FieldIndex nat

definition numericColumns :: "string list" where
  "numericColumns = [''Quantity'', ''Amount'', ''Stock'', ''Price'', ''Rating'', ''Customer_Age'', ''Min_Alert'']"

definition transform :: "ecma \<Rightarrow> string \<Rightarrow> header \<Rightarrow> cell" where
  "transform E v h =
     (case h of
        FieldName name \<Rightarrow>
          (if name \<in> set numericColumns
           then (case parseFloat E v of None \<Rightarrow> CStr v | Some num \<Rightarrow> CNum num)
           else CStr v)
      | FieldIndex i \<Rightarrow> CStr v)"

section \<open>An engine for concrete evaluations\<close>

text \<open>
  A stand-in for the engine that is exact on unsigned decimal integers, which is all
  the concrete inputs below use.
\<close>

definition readNat :: "string \<Rightarrow> real option" where
  "readNat s = (if s \<noteq> [] \<and> list_all isDigit s then Some (real (digitsValue s)) else None)"

definition integerEngine :: ecma where
  "integerEngine =
     \<lparr> NumberToString = (\<lambda>x. natToString (nat \<lfloor>x\<rfloor>)),
       StringToNumber = readNat,
       parseFloat = readNat,
       RoundNumber = (\<lambda>x. x),
       PrototypeMemberText =
         (\<lambda>k. if k = ''__proto__'' then ''[object Object]''
              else ''function '' @ (if k = ''constructor'' then ''Object'' else k)
                   @ ''() { [native code] }'') \<rparr>"

section \<open>The demo path\<close>

text \<open>
  \<^verbatim>\<open>getDemoBusinessSummary\<close> in \<^verbatim>\<open>src/lib/demo-data.ts\<close> computes its low-stock list
  itself: it compares with the item's own \<^verbatim>\<open>Min_Alert\<close>, without a default, and keeps
  the first five.
\<close>

definition demoLowStockItems :: "ecma \<Rightarrow> InventoryData list \<Rightarrow> (jsval \<times> jsval) list" where
  "demoLowStockItems E inventory =
     map (\<lambda>item. (getField item ''Product'', getField item ''Stock''))
       (take 5
         (sortBy (\<lambda>a b. jsSub E (getField a ''Stock'') (getField b ''Stock''))
           (filter (\<lambda>item. jsLess E (getField item ''Stock'') (getField item ''Min_Alert''))
             inventory)))"

section \<open>Notions of the specification\<close>

text \<open>
  The definitions of this section are not taken from the source: they say, in the
  specification's words, what the theorems below compare the code with.
\<close>

text \<open>The amount of a sale, a missing amount counting as \<open>0\<close>.\<close>

definition amountOf :: "SalesData \<Rightarrow> real" where
  "amountOf sale = (case sale ''Amount'' of Some (CNum x) \<Rightarrow> x | _ \<Rightarrow> 0)"

text \<open>The amount is a number, is missing, or is an empty cell.\<close>

definition numericAmount :: "SalesData \<Rightarrow> bool" where
  "numericAmount sale = (case sale ''Amount'' of Some (CStr s) \<Rightarrow> s = [] | _ \<Rightarrow> True)"

text \<open>
  The sum of a list of numbers as the engine computes it: from left to right, starting
  from \<open>0\<close>, each addition rounded.
\<close>

definition engineSum :: "ecma \<Rightarrow> real list \<Rightarrow> real" where
  "engineSum E xs = foldl (\<lambda>s x. numberResult E (s + x)) 0 xs"




fun numVal :: "jsval \<Rightarrow> real" where
  "numVal (Num x) = x"
| "numVal v = 0"

text \<open>The sum of the revenues that \<open>topProducts\<close> lists.\<close>

definition listedRevenue :: "BusinessSummary \<Rightarrow> real" where
  "listedRevenue S = (\<Sum>e\<leftarrow>topProducts S. numVal (snd e))"

text \<open>A review record carries its text.\<close>

definition hasReviewText :: "ReviewData \<Rightarrow> bool" where
  "hasReviewText r = (case r ''Review'' of Some (CStr s) \<Rightarrow> True | _ \<Rightarrow> False)"

definition reviewText :: "ReviewData \<Rightarrow> string" where
  "reviewText r = (case r ''Review'' of Some (CStr s) \<Rightarrow> s | _ \<Rightarrow> [])"

text \<open>
  A lexicon word occurs in a text, case-insensitively, as a substring: some stretch of
  the text reads as the word once lowered.
\<close>

definition occursIgnoringCase :: "string \<Rightarrow> string \<Rightarrow> bool" where
  "occursIgnoringCase word t = (\<exists>ps u ss. t = ps @ u @ ss \<and> toLowerCase u = word)"

definition lexiconDelta :: "string \<Rightarrow> int" where
  "lexiconDelta t =
     int (card {w \<in> set positiveWords. occursIgnoringCase w t})
     - int (card {w \<in> set negativeWords. occursIgnoringCase w t})"

text \<open>The two messages of the validators.\<close>

definition missingMsg :: "string \<Rightarrow> string" where
  "missingMsg field = ''Missing required field: '' @ field"

definition rowMsg :: "nat \<Rightarrow> string \<Rightarrow> string" where
  "rowMsg n field = ''Row '' @ natToString n @ '': '' @ field @ '' must be a number''"

text \<open>
  A cell is present and not numeric: it holds a text, not the empty one, that does not
  denote a number. (The decoder leaves a text where \<^verbatim>\<open>parseFloat\<close> reads nothing; an
  empty cell is such a text, and \<^verbatim>\<open>Number\<close> reads it as \<open>0\<close>.)
\<close>

definition cellNotNumeric :: "ecma \<Rightarrow> cell option \<Rightarrow> bool" where
  "cellNotNumeric E c =
     (case c of Some (CStr s) \<Rightarrow> s \<noteq> [] \<and> StringToNumber E s = None | _ \<Rightarrow> False)"

definition rowErrors :: "ecma \<Rightarrow> row \<Rightarrow> nat \<Rightarrow> string list" where
  "rowErrors E r n =
     (if cellNotNumeric E (r ''Quantity'') then [rowMsg n ''Quantity''] else [])
     @ (if cellNotNumeric E (r ''Amount'') then [rowMsg n ''Amount''] else [])"

section \<open>Concrete inputs\<close>

definition saleOf :: "string \<Rightarrow> real \<Rightarrow> SalesData" where
  "saleOf product amount = [''Product'' \<mapsto> CStr product, ''Amount'' \<mapsto> CNum amount]"





text \<open>
  A sales file of six rows: five well-formed ones and a sixth whose amount cell reads
  \<^verbatim>\<open>N/A\<close>, which the decoder keeps as text.
\<close>

definition goodSale :: SalesData where
  "goodSale = [''Date'' \<mapsto> CStr ''2024-08-01'', ''Product'' \<mapsto> CStr ''Kurta'',
               ''Quantity'' \<mapsto> CNum 1, ''Amount'' \<mapsto> CNum 100]"

definition textAmountSale :: SalesData where
  "textAmountSale = [''Date'' \<mapsto> CStr ''2024-08-06'', ''Product'' \<mapsto> CStr ''Kurta'',
                     ''Quantity'' \<mapsto> CNum 1, ''Amount'' \<mapsto> CStr ''N/A'']"

definition lateTextAmount :: "SalesData list" where
  "lateTextAmount = [goodSale, goodSale, goodSale, goodSale, goodSale, textAmountSale]"

text \<open>A sales row whose quantity cell reads \<^verbatim>\<open>two\<close>.\<close>

definition textQuantitySale :: SalesData where
  "textQuantitySale = [''Date'' \<mapsto> CStr ''2024-08-01'', ''Product'' \<mapsto> CStr ''Kurta'',
                       ''Quantity'' \<mapsto> CStr ''two'', ''Amount'' \<mapsto> CNum 100]"

text \<open>A sales row whose quantity cell is empty.\<close>

definition blankQuantitySale :: SalesData where
  "blankQuantitySale = [''Date'' \<mapsto> CStr ''2024-08-01'', ''Product'' \<mapsto> CStr ''Kurta'',
                        ''Quantity'' \<mapsto> CStr [], ''Amount'' \<mapsto> CNum 100]"

text \<open>
  Three sales with the amounts \<^verbatim>\<open>19.99\<close>, \<^verbatim>\<open>5.49\<close> and \<^verbatim>\<open>29.95\<close>, each as the
  double nearest to it, and an engine that rounds the two sums of this input that are
  no doubles as IEEE arithmetic does: \<open>19.99 + 5.49\<close> to \<open>25.479999999999997\<close> and
  that plus \<open>29.95\<close> to \<open>55.42999999999999\<close>. The sum \<open>19.99 + 29.95\<close> is a double.
\<close>

definition d1999 :: real where
  "d1999 = 5626684784446013 / 281474976710656"

definition d549 :: real where
  "d549 = 3090595244283003 / 562949953421312"

definition d2995 :: real where
  "d2995 = 8430175552484147 / 281474976710656"

definition d2548 :: real where
  "d2548 = 3585991203293757 / 140737488355328"

definition d5543 :: real where
  "d5543 = 3900539489767915 / 70368744177664"

definition roundingEngine :: ecma where
  "roundingEngine =
     integerEngine \<lparr> RoundNumber :=
       (\<lambda>z. if z = d1999 + d549 then d2548 else if z = d2548 + d2995 then d5543 else z) \<rparr>"

definition roundingSales :: "SalesData list" where
  "roundingSales = [saleOf ''A'' d1999, saleOf ''B'' d549, saleOf ''A'' d2995]"

text \<open>
  A review file of two rows, the second one cut short after the rating, so that the
  decoder leaves its \<^verbatim>\<open>Review\<close> and \<^verbatim>\<open>Product\<close> fields out.
\<close>

definition fullReview :: ReviewData where
  "fullReview = [''Date'' \<mapsto> CStr ''2024-08-01'', ''Rating'' \<mapsto> CNum 5,
                 ''Review'' \<mapsto> CStr ''Great quality'', ''Product'' \<mapsto> CStr ''Kurta'']"

definition shortReview :: ReviewData where
  "shortReview = [''Date'' \<mapsto> CStr ''2024-08-02'', ''Rating'' \<mapsto> CNum 4]"

definition terribleReview :: ReviewData where
  "terribleReview = [''Date'' \<mapsto> CStr ''2024-08-03'', ''Rating'' \<mapsto> CNum 1,
                     ''Review'' \<mapsto> CStr ''Terrible service'', ''Product'' \<mapsto> CStr ''Kurta'']"

text \<open>An inventory item whose alert threshold is \<open>0\<close>.\<close>

definition zeroAlertItem :: InventoryData where
  "zeroAlertItem = [''Product'' \<mapsto> CStr ''Kurta'', ''Stock'' \<mapsto> CNum 3,
                    ''Price'' \<mapsto> CNum 500, ''Min_Alert'' \<mapsto> CNum 0]"

text \<open>An inventory row with text under every required key.\<close>

definition textInventoryRow :: InventoryData where
  "textInventoryRow = [''Product'' \<mapsto> CStr ''?'', ''Stock'' \<mapsto> CStr ''many'',
                       ''Price'' \<mapsto> CStr ''cheap'']"

section \<open>Sorting\<close>






section \<open>The accumulator object\<close>








section \<open>Revenue\<close>

lemma amount_or_zero:
  "numericAmount sale \<Longrightarrow> jsOr (getField sale ''Amount'') (Num 0) = Num (amountOf sale)"
  by (auto simp: numericAmount_def jsOr_def getField_def amountOf_def split: option.splits cell.splits)

lemma jsAdd_Num: "jsAdd E (Num a) (Num b) = Num (numberResult E (a + b))"
  by (simp add: jsAdd_def)

lemma foldl_amounts:
  "list_all numericAmount sales \<Longrightarrow>
     foldl (\<lambda>s r. jsAdd E s (jsOr (getField r ''Amount'') (Num 0))) (Num a) sales
       = Num (foldl (\<lambda>s x. numberResult E (s + x)) a (map amountOf sales))"
  by (induction sales arbitrary: a) (simp_all add: amount_or_zero jsAdd_Num)

lemma totalRevenue_numeric:
  "list_all numericAmount sales \<Longrightarrow>
     sumField E ''Amount'' sales = Num (engineSum E (map amountOf sales))"
  unfolding sumField_def engineSum_def by (rule foldl_amounts)






text \<open>
  A product named like a member of \<^verbatim>\<open>Object.prototype\<close> does not get a number: the
  first read finds the inherited member, and the sum is a concatenation. Under
  \<^verbatim>\<open>__proto__\<close> nothing is stored at all.
\<close>

lemma productRevenue_prototype_member:
  "productRevenue E [saleOf ''constructor'' 100]
     = [(''constructor'', Str (PrototypeMemberText E ''constructor'' @ NumberToString E 100))]
   \<and> productRevenue E [saleOf ''__proto__'' 100] = []"
  by (simp add: productRevenue_def Let_def objGet_def objSet_def objectPrototypeKeys_def
      saleOf_def getField_def jsOr_def jsAdd_def)


section \<open>Sentiment\<close>

lemma isPrefixOf_iff: "isPrefixOf w t \<longleftrightarrow> (\<exists>ss. t = w @ ss)"
  by (induction w t rule: isPrefixOf.induct) auto

lemma js_includes_iff: "js_includes t w \<longleftrightarrow> (\<exists>ps ss. t = ps @ w @ ss)"
proof (induction t)
  case Nil
  then show ?case by auto
next
  case (Cons c t)
  show ?case
  proof
    assume "js_includes (c # t) w"
    then consider "isPrefixOf w (c # t)" | "js_includes t w"
      by auto
    then show "\<exists>ps ss. c # t = ps @ w @ ss"
    proof cases
      case 1
      then obtain ss where "c # t = [] @ w @ ss"
        by (auto simp: isPrefixOf_iff)
      then show ?thesis by blast
    next
      case 2
      then obtain ps ss where "t = ps @ w @ ss"
        using Cons.IH by blast
      then have "c # t = (c # ps) @ w @ ss"
        by simp
      then show ?thesis by blast
    qed
  next
    assume "\<exists>ps ss. c # t = ps @ w @ ss"
    then obtain ps ss where eq: "c # t = ps @ w @ ss"
      by blast
    show "js_includes (c # t) w"
    proof (cases ps)
      case Nil
      with eq have "isPrefixOf w (c # t)"
        by (simp add: isPrefixOf_iff)
      then show ?thesis by simp
    next
      case (Cons p ps')
      with eq have "t = ps' @ w @ ss"
        by simp
      then have "js_includes t w"
        using Cons.IH by blast
      then show ?thesis by simp
    qed
  qed
qed

lemma includes_lower_iff: "js_includes (toLowerCase t) w \<longleftrightarrow> occursIgnoringCase w t"
proof
  assume "js_includes (toLowerCase t) w"
  then obtain ps ss where "map toLowerChar t = ps @ w @ ss"
    unfolding js_includes_iff toLowerCase_def by blast
  then have "\<exists>ps' r. t = ps' @ r \<and> ps = map toLowerChar ps' \<and> w @ ss = map toLowerChar r"
    by (rule map_eq_append_conv [THEN iffD1])
  then obtain ps' r where t: "t = ps' @ r" and r: "w @ ss = map toLowerChar r"
    by blast
  from r have "\<exists>u ss'. r = u @ ss' \<and> w = map toLowerChar u \<and> ss = map toLowerChar ss'"
    by (rule append_eq_map_conv [THEN iffD1])
  then obtain u ss' where "r = u @ ss'" and "map toLowerChar u = w"
    by blast
  with t show "occursIgnoringCase w t"
    unfolding occursIgnoringCase_def toLowerCase_def by blast
next
  assume "occursIgnoringCase w t"
  then obtain ps u ss where "t = ps @ u @ ss" and "toLowerCase u = w"
    unfolding occursIgnoringCase_def by blast
  then have "toLowerCase t = toLowerCase ps @ w @ toLowerCase ss"
    by (simp add: toLowerCase_def)
  then show "js_includes (toLowerCase t) w"
    unfolding js_includes_iff by blast
qed

lemma distinct_lexicon: "distinct positiveWords" "distinct negativeWords"
  by (simp_all add: positiveWords_def negativeWords_def)

lemma count_matches:
  "distinct ws \<Longrightarrow> length (filter P ws) = card {w \<in> set ws. P w}"
  by (simp add: distinct_length_filter Int_def conj_commute)

lemma reviewDelta_lower: "reviewDelta (toLowerCase t) = lexiconDelta t"
  by (simp add: reviewDelta_def lexiconDelta_def count_matches distinct_lexicon includes_lower_iff)

text \<open>The loop over the reviews ends normally when every review carries its text.\<close>

lemma sentimentLoop_total:
  "list_all hasReviewText reviews \<Longrightarrow>
     sentimentLoop acc reviews = Inr (acc + (\<Sum>r\<leftarrow>reviews. lexiconDelta (reviewText r)))"
proof (induction reviews arbitrary: acc)
  case Nil
  then show ?case by simp
next
  case (Cons r reviews)
  from Cons.prems obtain s where s: "r ''Review'' = Some (CStr s)"
    by (auto simp: hasReviewText_def split: option.splits cell.splits)
  then have "getField r ''Review'' = Str s" and "reviewText r = s"
    by (simp_all add: getField_def reviewText_def)
  with Cons show ?case
    by (simp add: reviewDelta_lower)
qed

section \<open>Validation\<close>

lemma checkRequiredFields_eq:
  "checkRequiredFields r fs errs = errs @ map missingMsg (filter (\<lambda>f. r f = None) fs)"
  unfolding checkRequiredFields_def
  by (induction fs arbitrary: errs) (simp_all add: missingMsg_def)

lemma notANumber_getField:
  "notANumber E (getField r k) = cellNotNumeric E (r k)"
  by (auto simp: notANumber_def getField_def cellNotNumeric_def split: option.splits cell.splits)

lemma checkRowTypes_eq:
  "checkRowTypes E errs (r, i) = errs @ rowErrors E r (i + 1)"
  by (simp add: checkRowTypes_def notANumber_getField rowErrors_def rowMsg_def)

lemma foldl_checkRowTypes:
  "foldl (checkRowTypes E) errs ris = errs @ concat (map (\<lambda>(r, i). rowErrors E r (i + 1)) ris)"
  by (induction ris arbitrary: errs) (auto simp: checkRowTypes_eq)

lemma zip_take_upt:
  "zip (take n xs) [0 ..< n] = map (\<lambda>i. (xs ! i, i)) [0 ..< min n (length xs)]"
proof (rule nth_equalityI)
  show "length (zip (take n xs) [0 ..< n]) = length (map (\<lambda>i. (xs ! i, i)) [0 ..< min n (length xs)])"
    by simp
next
  fix i
  assume "i < length (zip (take n xs) [0 ..< n])"
  then have "i < n" and "i < length xs"
    by simp_all
  then show "zip (take n xs) [0 ..< n] ! i = map (\<lambda>i. (xs ! i, i)) [0 ..< min n (length xs)] ! i"
    by simp
qed

text \<open>
  The errors of the sales validator on a non-empty list: the missing fields of the
  first row, then the type errors of the first five rows, row by row.
\<close>

lemma validateSalesData_errors:
  "errors (validateSalesData E (firstRow # rest)) =
     map missingMsg (filter (\<lambda>f. firstRow f = None) [''Date'', ''Product'', ''Quantity'', ''Amount''])
     @ concat (map (\<lambda>i. rowErrors E ((firstRow # rest) ! i) (i + 1)) [0 ..< min 5 (Suc (length rest))])"
  unfolding validateSalesData_def
  by (simp only: list.case Let_def checkRequiredFields_eq foldl_checkRowTypes zip_take_upt)
     (simp add: comp_def)

lemma validators_valid_iff:
  "valid (validateSalesData E data) = (errors (validateSalesData E data) = [])"
  "valid (validateInventoryData data) = (errors (validateInventoryData data) = [])"
  "valid (validateReviewData data) = (errors (validateReviewData data) = [])"
  by (simp_all add: validateSalesData_def validateInventoryData_def validateReviewData_def Let_def
      split: list.splits)

lemma rowMsg_in_rowErrors:
  "cellNotNumeric E (r ''Quantity'') \<Longrightarrow> rowMsg n ''Quantity'' \<in> set (rowErrors E r n)"
  "cellNotNumeric E (r ''Amount'') \<Longrightarrow> rowMsg n ''Amount'' \<in> set (rowErrors E r n)"
  by (simp_all add: rowErrors_def)

lemma in_concat_upt:
  "i < m \<Longrightarrow> x \<in> set (f i) \<Longrightarrow> x \<in> set (concat (map f [0 ..< m]))"
  by auto

lemma list_all_concat_upt:
  "(\<And>i. list_all P (f i)) \<Longrightarrow> list_all P (concat (map f [0 ..< m]))"
  by (simp add: list_all_iff)

lemma rowErrors_prefix: "list_all (\<lambda>e. take 4 e = ''Row '') (rowErrors E r n)"
  by (simp add: rowErrors_def rowMsg_def)

section \<open>Totality of the aggregation\<close>

text \<open>
  C1. \<^verbatim>\<open>generateBusinessSummary\<close> is to return a summary for every triple of record
  lists, records with missing fields included. The code does not: the scorer calls
  \<^verbatim>\<open>review.Review.toLowerCase()\<close> with no default, whereas the sums next to it read
  \<^verbatim>\<open>sale.Amount || 0\<close> and \<^verbatim>\<open>review.Rating || 0\<close>. A review file whose second row
  stops after the rating passes \<^verbatim>\<open>validateReviewData\<close>, which looks at the first row
  only, and then makes the aggregation throw a \<^verbatim>\<open>TypeError\<close>.
\<close>

theorem summary_throws_on_missing_review:
  "validateReviewData [fullReview, shortReview] = \<lparr> valid = True, errors = [] \<rparr>
   \<and> generateBusinessSummary E [] [] [fullReview, shortReview] = Inl TypeError"
  by (simp add: validateReviewData_def checkRequiredFields_def generateBusinessSummary_def
      Let_def fullReview_def shortReview_def getField_def)

section \<open>Revenue totals\<close>

text \<open>
  Where every amount is a number, is missing or is an empty cell, a summary that is
  returned has the totals the specification names, the sum being the engine's.
\<close>

lemma revenue_totals:
  assumes "list_all numericAmount salesData"
    and "generateBusinessSummary E salesData inventoryData reviewData = Inr S"
  shows "totalOrders S = length salesData
    \<and> totalRevenue S = Num (engineSum E (map amountOf salesData))
    \<and> averageOrderValue S =
        (if salesData = [] then Num 0
         else Num (numberResult E (engineSum E (map amountOf salesData) / real (length salesData))))"
  using assms(2) totalRevenue_numeric [OF assms(1), of E]
  by (auto simp: generateBusinessSummary_def Let_def jsDiv_def split: sum.splits)

text \<open>
  C2. \<open>totalOrders\<close> is the number of sales and \<open>totalRevenue\<close> the sum of their
  amounts, a missing or non-numeric amount counting as \<open>0\<close>. The code counts a missing
  amount as \<open>0\<close> (\<^verbatim>\<open>sale.Amount || 0\<close>), but not a text one: the decoder keeps a cell
  that does not parse as its text, the validator checks the first five rows only, and
  \<^verbatim>\<open>sum + 'N/A'\<close> is a string concatenation. On five well-formed rows followed by one
  with the amount \<^verbatim>\<open>N/A\<close> the file is valid and \<open>totalRevenue\<close> is the text of \<open>500\<close>
  followed by \<^verbatim>\<open>N/A\<close>, not the number \<open>500\<close>.
\<close>

theorem revenue_text_amount_concatenated:
  "validateSalesData E lateTextAmount = \<lparr> valid = True, errors = [] \<rparr>
   \<and> generateBusinessSummary E lateTextAmount [] [] =
       Inr \<lparr> totalRevenue = Str (NumberToString E 500 @ ''N/A''),
             totalOrders = 6,
             averageOrderValue = jsDiv E (Str (NumberToString E 500 @ ''N/A'')) 6,
             topProducts = [(''Kurta'', Str (NumberToString E 500 @ ''N/A''))],
             lowStockItems = [],
             averageRating = Num 0,
             sentimentScore = 0 \<rparr>"
proof -
  have v: "validateSalesData E lateTextAmount = \<lparr> valid = True, errors = [] \<rparr>"
    by (simp add: validateSalesData_def checkRequiredFields_def checkRowTypes_def notANumber_def
        lateTextAmount_def goodSale_def textAmountSale_def getField_def upt_rec numeral_eq_Suc)
  have r: "sumField E ''Amount'' lateTextAmount = Str (NumberToString E 500 @ ''N/A'')"
    by (simp add: sumField_def lateTextAmount_def goodSale_def textAmountSale_def getField_def
        jsOr_def jsAdd_def numberResult_def)
  have t: "computeTopProducts E lateTextAmount = [(''Kurta'', Str (NumberToString E 500 @ ''N/A''))]"
    by (simp add: computeTopProducts_def productRevenue_def objectEntries_def sortBy_def
        objGet_def objSet_def objectPrototypeKeys_def arrayIndex_def isDigit_def
        lateTextAmount_def goodSale_def textAmountSale_def
        getField_def jsOr_def jsAdd_def numberResult_def)
  have l: "computeLowStockItems E 10 [] = []"
    by (simp add: computeLowStockItems_def sortBy_def)
  have n: "length lateTextAmount = 6"
    by (simp add: lateTextAmount_def)
  have g: "sumField E ''Rating'' [] = Num 0"
    by (simp add: sumField_def)
  have "generateBusinessSummary E lateTextAmount [] [] =
       Inr \<lparr> totalRevenue = Str (NumberToString E 500 @ ''N/A''),
             totalOrders = 6,
             averageOrderValue = jsDiv E (Str (NumberToString E 500 @ ''N/A'')) 6,
             topProducts = [(''Kurta'', Str (NumberToString E 500 @ ''N/A''))],
             lowStockItems = [],
             averageRating = Num 0,
             sentimentScore = 0 \<rparr>"
    by (simp add: generateBusinessSummary_def Let_def r t l n g)
  with v show ?thesis
    by simp
qed

section \<open>Low stock\<close>

text \<open>
  C3. \<open>lowStockItems\<close> is to hold the items whose stock is below their own
  \<^verbatim>\<open>Min_Alert\<close> when they have one, and below \<open>5\<close> when they have none. The code
  writes the default as \<^verbatim>\<open>item.Min_Alert || 5\<close>, which also replaces a threshold of
  \<open>0\<close>: an item with stock \<open>3\<close> and threshold \<open>0\<close> is listed, although \<open>3 < 0\<close> is
  false. The demo path compares with the item's own threshold and lists nothing.
\<close>

theorem low_stock_zero_threshold:
  "generateBusinessSummary E [] [zeroAlertItem] [] =
       Inr \<lparr> totalRevenue = Num 0,
             totalOrders = 0,
             averageOrderValue = Num 0,
             topProducts = [],
             lowStockItems = [(Str ''Kurta'', Num 3)],
             averageRating = Num 0,
             sentimentScore = 0 \<rparr>
   \<and> demoLowStockItems E [zeroAlertItem] = []"
  by (simp add: generateBusinessSummary_def Let_def sumField_def computeTopProducts_def
      productRevenue_def objectEntries_def computeLowStockItems_def demoLowStockItems_def
      isLowStock_def sortBy_def jsLess_def jsOr_def zeroAlertItem_def getField_def)

section \<open>The sentiment score\<close>

text \<open>
  On review records that carry their text the aggregation returns, and its
  \<open>sentimentScore\<close> is the mean of the reviews' deltas clamped to \<open>[-1, 1]\<close>, the delta
  of a review being the number of positive lexicon words that occur in its text,
  case-insensitively and as substrings, minus the number of negative ones.
\<close>

lemma sentiment_score_with_text:
  assumes "list_all hasReviewText reviewData"
  shows "\<exists>S. generateBusinessSummary E salesData inventoryData reviewData = Inr S
    \<and> sentimentScore S =
        (if reviewData = [] then 0
         else max (- 1) (min 1 (numberResult E
                (real_of_int (\<Sum>r\<leftarrow>reviewData. lexiconDelta (reviewText r))
                   / real (length reviewData)))))
    \<and> - 1 \<le> sentimentScore S \<and> sentimentScore S \<le> 1"
  using sentimentLoop_total [OF assms, of 0]
  by (simp add: generateBusinessSummary_def Let_def)

text \<open>
  The lowering on the whole alphabet and on the characters next to it, and the scenario
  of the specification: one delta of \<open>1\<close> and one of \<open>-1\<close> give the score \<open>0\<close>.
\<close>

lemma toLowerCase_alphabet:
  "toLowerCase ''@ABCDEFGHIJKLMNOPQRSTUVWXYZ[ `abcdefghijklmnopqrstuvwxyz{ 0189''
     = ''@abcdefghijklmnopqrstuvwxyz[ `abcdefghijklmnopqrstuvwxyz{ 0189''"
  by (simp add: toLowerCase_def toLowerChar_def)

lemma lexicon_match_example:
  "reviewDelta (toLowerCase ''GREAT fabric, badly sewn'') = 0
   \<and> reviewDelta (toLowerCase ''Good, good and EXCELLENT'') = 2
   \<and> reviewDelta (toLowerCase ''Delivery was delayed'') = 0"
  by (simp add: toLowerCase_def toLowerChar_def reviewDelta_def positiveWords_def negativeWords_def)

lemma sentiment_scenario:
  "\<exists>S. generateBusinessSummary integerEngine [] [] [fullReview, terribleReview] = Inr S
        \<and> sentimentScore S = 0"
  by (simp add: generateBusinessSummary_def Let_def fullReview_def terribleReview_def getField_def
      toLowerCase_def toLowerChar_def reviewDelta_def positiveWords_def negativeWords_def
      numberResult_def)

text \<open>
  C4. \<open>sentimentScore\<close> is to be the clamped mean of the reviews' deltas for every
  review list whatsoever. On a review list with a record that lacks its \<^verbatim>\<open>Review\<close>
  field there is no score at all: the scorer calls \<^verbatim>\<open>review.Review.toLowerCase()\<close>
  on \<^verbatim>\<open>undefined\<close> and the aggregation throws, whatever the sales and the inventory
  are. This is the defect of C1, seen from the scorer.
\<close>

theorem sentiment_score_absent_on_missing_review:
  "sentimentLoop 0 [fullReview, shortReview] = Inl TypeError
   \<and> generateBusinessSummary E salesData inventoryData [fullReview, shortReview] = Inl TypeError"
  by (simp add: generateBusinessSummary_def Let_def fullReview_def shortReview_def getField_def)

section \<open>Top products\<close>




text \<open>
  With no negative amount the bound fails by rounding: the amounts \<^verbatim>\<open>19.99\<close>,
  \<^verbatim>\<open>5.49\<close> and \<^verbatim>\<open>29.95\<close> for the products \<^verbatim>\<open>A\<close>, \<^verbatim>\<open>B\<close> and \<^verbatim>\<open>A\<close> sum to
  \<open>55.42999999999999\<close> in row order, and the two listed revenues, \<open>49.94\<close> and \<open>5.49\<close>,
  to more.
\<close>

lemma top_products_sum_rounding:
  "\<exists>S. generateBusinessSummary roundingEngine roundingSales [] [] = Inr S
        \<and> totalRevenue S = Num d5543
        \<and> topProducts S = [(''A'', Num (d1999 + d2995)), (''B'', Num d549)]
        \<and> numVal (totalRevenue S) < listedRevenue S"
proof -
  have e: "RoundNumber roundingEngine =
      (\<lambda>z. if z = d1999 + d549 then d2548 else if z = d2548 + d2995 then d5543 else z)"
    by (simp add: roundingEngine_def)
  have a1: "numberResult roundingEngine d1999 = d1999"
    and a2: "numberResult roundingEngine d549 = d549"
    and a3: "numberResult roundingEngine (d1999 + d549) = d2548"
    and a4: "numberResult roundingEngine (d2548 + d2995) = d5543"
    and a5: "numberResult roundingEngine (d1999 + d2995) = d1999 + d2995"
    by (simp_all add: numberResult_def e d1999_def d549_def d2995_def d2548_def d5543_def)
  have nz: "d1999 \<noteq> 0" "d549 \<noteq> 0" "d2995 \<noteq> 0" "d1999 + d2995 \<noteq> 0"
    by (simp_all add: d1999_def d549_def d2995_def)
  have lt: "d549 < d1999 + d2995"
    by (simp add: d1999_def d549_def d2995_def)
  have r: "sumField roundingEngine ''Amount'' roundingSales = Num d5543"
    by (simp add: sumField_def roundingSales_def saleOf_def getField_def jsOr_def jsAdd_def
        a1 a3 a4 nz)
  have p: "productRevenue roundingEngine roundingSales = [(''A'', Num (d1999 + d2995)), (''B'', Num d549)]"
    by (simp add: productRevenue_def objGet_def objSet_def objectPrototypeKeys_def
        roundingSales_def saleOf_def getField_def jsOr_def jsAdd_def a1 a2 a5 nz)
  have t: "computeTopProducts roundingEngine roundingSales =
      [(''A'', Num (d1999 + d2995)), (''B'', Num d549)]"
    using lt by (simp add: computeTopProducts_def p objectEntries_def sortBy_def
        arrayIndex_def isDigit_def jsSub_def)
  have "\<exists>S. generateBusinessSummary roundingEngine roundingSales [] [] = Inr S
        \<and> totalRevenue S = Num d5543
        \<and> topProducts S = [(''A'', Num (d1999 + d2995)), (''B'', Num d549)]"
    by (simp add: generateBusinessSummary_def Let_def t r)
  moreover have "d5543 < d1999 + d2995 + d549"
    by (simp add: d1999_def d549_def d2995_def d5543_def)
  ultimately show ?thesis
    by (auto simp: listedRevenue_def)
qed

section \<open>Empty input\<close>

text \<open>
  C6. On an empty row list each of the three validators returns \<open>valid = False\<close> with the
  single error \<^verbatim>\<open>No data found in the file\<close>; no other check contributes an error.
\<close>

theorem validators_empty:
  "validateSalesData E [] = \<lparr> valid = False, errors = [''No data found in the file''] \<rparr>
   \<and> validateInventoryData [] = \<lparr> valid = False, errors = [''No data found in the file''] \<rparr>
   \<and> validateReviewData [] = \<lparr> valid = False, errors = [''No data found in the file''] \<rparr>"
  by (simp add: validateSalesData_def validateInventoryData_def validateReviewData_def)

section \<open>Type errors of the sales rows\<close>

text \<open>
  The message for a cell is in the error list whenever the cell is one of the first
  five rows' \<^verbatim>\<open>Quantity\<close> or \<^verbatim>\<open>Amount\<close> and holds a text that does not read as a
  number.
\<close>

lemma sales_type_error_listed:
  assumes "i < length data" and "i < 5"
    and "field = ''Quantity'' \<or> field = ''Amount''"
    and "(data ! i) field = Some (CStr s)" and "ToNumber E (Str s) = None"
  shows "''Row '' @ natToString (i + 1) @ '': '' @ field @ '' must be a number''
           \<in> set (errors (validateSalesData E data))"
proof -
  from assms(1) obtain firstRow rest where data: "data = firstRow # rest"
    by (cases data) auto
  have bad: "cellNotNumeric E ((data ! i) field)"
    using assms(4,5) by (auto simp: cellNotNumeric_def split: if_splits)
  have "rowMsg (i + 1) field \<in> set (rowErrors E (data ! i) (i + 1))"
    using assms(3) bad rowMsg_in_rowErrors by blast
  moreover have "i < min 5 (Suc (length rest))"
    using assms(1,2) data by simp
  ultimately have "rowMsg (i + 1) field
      \<in> set (concat (map (\<lambda>i. rowErrors E (data ! i) (i + 1)) [0 ..< min 5 (Suc (length rest))]))"
    by (rule in_concat_upt [rotated])
  then have "rowMsg (i + 1) field \<in> set (errors (validateSalesData E data))"
    unfolding data validateSalesData_errors set_append by (rule UnI2)
  then show ?thesis
    by (simp add: rowMsg_def)
qed

text \<open>
  Two files of two rows: a text quantity in the second row is reported with the index
  \<open>2\<close>; an empty quantity cell is not reported.
\<close>

lemma sales_type_error_example:
  "validateSalesData integerEngine [goodSale, textQuantitySale] =
     \<lparr> valid = False, errors = [''Row 2: Quantity must be a number''] \<rparr>
   \<and> validateSalesData integerEngine [goodSale, blankQuantitySale] =
     \<lparr> valid = True, errors = [] \<rparr>"
  by (simp add: validateSalesData_def checkRequiredFields_def checkRowTypes_def notANumber_def
      goodSale_def textQuantitySale_def blankQuantitySale_def getField_def upt_rec numeral_eq_Suc
      integerEngine_def readNat_def isDigit_def natToString.simps)


section \<open>Required fields\<close>

text \<open>
  C8. On a non-empty row list the required-field check reads the first row only: the
  errors of the inventory and of the review validator are the messages
  \<^verbatim>\<open>Missing required field: name\<close> for the required names absent from the first row,
  in the order of the required-field list, whatever the later rows are; the errors of
  the sales validator start with these messages, and what follows are the row-indexed
  type errors. The flag \<open>valid\<close> is true exactly when the error list is empty.
\<close>

theorem required_fields_first_row_only:
  "errors (validateInventoryData (firstRow # rest)) =
      map (\<lambda>f. ''Missing required field: '' @ f)
        (filter (\<lambda>f. firstRow f = None) [''Product'', ''Stock'', ''Price''])
   \<and> errors (validateReviewData (firstRow # rest)) =
      map (\<lambda>f. ''Missing required field: '' @ f)
        (filter (\<lambda>f. firstRow f = None) [''Date'', ''Rating'', ''Review'', ''Product''])
   \<and> (\<exists>typeErrors. errors (validateSalesData E (firstRow # rest)) =
      map (\<lambda>f. ''Missing required field: '' @ f)
        (filter (\<lambda>f. firstRow f = None) [''Date'', ''Product'', ''Quantity'', ''Amount''])
      @ typeErrors \<and> list_all (\<lambda>e. take 4 e = ''Row '') typeErrors)
   \<and> valid (validateInventoryData (firstRow # rest)) = (errors (validateInventoryData (firstRow # rest)) = [])
   \<and> valid (validateReviewData (firstRow # rest)) = (errors (validateReviewData (firstRow # rest)) = [])
   \<and> valid (validateSalesData E (firstRow # rest)) = (errors (validateSalesData E (firstRow # rest)) = [])"
proof -
  have inv: "errors (validateInventoryData (firstRow # rest)) =
      map missingMsg (filter (\<lambda>f. firstRow f = None) [''Product'', ''Stock'', ''Price''])"
    by (simp only: validateInventoryData_def list.case Let_def checkRequiredFields_eq) simp
  have rev: "errors (validateReviewData (firstRow # rest)) =
      map missingMsg (filter (\<lambda>f. firstRow f = None) [''Date'', ''Rating'', ''Review'', ''Product''])"
    by (simp only: validateReviewData_def list.case Let_def checkRequiredFields_eq) simp
  have rows: "list_all (\<lambda>e. take 4 e = ''Row '')
      (concat (map (\<lambda>i. rowErrors E ((firstRow # rest) ! i) (i + 1)) [0 ..< min 5 (Suc (length rest))]))"
    by (rule list_all_concat_upt) (rule rowErrors_prefix)
  have missingMsg_eq: "missingMsg = (\<lambda>f. ''Missing required field: '' @ f)"
    by (rule ext) (simp add: missingMsg_def)
  show ?thesis
    using inv rev rows validateSalesData_errors [of E firstRow rest]
    unfolding missingMsg_eq
    by (simp only: validators_valid_iff) blast
qed

section \<open>Coercion of the cells\<close>

text \<open>
  C9. The coercion step of the decoder reads a cell with \<^verbatim>\<open>parseFloat\<close> exactly when
  its column is one of \<^verbatim>\<open>Quantity\<close>, \<^verbatim>\<open>Amount\<close>, \<^verbatim>\<open>Stock\<close>, \<^verbatim>\<open>Price\<close>, \<^verbatim>\<open>Rating\<close>,
  \<^verbatim>\<open>Customer_Age\<close> and \<^verbatim>\<open>Min_Alert\<close>: the cell becomes the number read, or stays the
  text it was when nothing is read. A cell of any other column stays its text. The step
  is a total function; it raises nothing.
\<close>

theorem transform_coercion:
  "transform E v (FieldName name) =
     (if name \<in> {''Quantity'', ''Amount'', ''Stock'', ''Price'', ''Rating'', ''Customer_Age'', ''Min_Alert''}
      then (case parseFloat E v of Some num \<Rightarrow> CNum num | None \<Rightarrow> CStr v)
      else CStr v)"
  by (simp add: transform_def numericColumns_def split: option.splits)

section \<open>Inventory and review rows\<close>

text \<open>
  C10. A non-empty inventory list whose first row has the keys \<^verbatim>\<open>Product\<close>,
  \<^verbatim>\<open>Stock\<close> and \<^verbatim>\<open>Price\<close> is valid with no errors, and so is a non-empty review list
  whose first row has the keys \<^verbatim>\<open>Date\<close>, \<^verbatim>\<open>Rating\<close>, \<^verbatim>\<open>Review\<close> and \<^verbatim>\<open>Product\<close>;
  neither the cells under these keys nor the later rows matter.
\<close>

theorem first_row_keys_suffice:
  "(firstRow ''Product'' \<noteq> None \<and> firstRow ''Stock'' \<noteq> None \<and> firstRow ''Price'' \<noteq> None
      \<longrightarrow> validateInventoryData (firstRow # rest) = \<lparr> valid = True, errors = [] \<rparr>)
   \<and> (firstRow ''Date'' \<noteq> None \<and> firstRow ''Rating'' \<noteq> None \<and> firstRow ''Review'' \<noteq> None
        \<and> firstRow ''Product'' \<noteq> None
      \<longrightarrow> validateReviewData (firstRow # rest) = \<lparr> valid = True, errors = [] \<rparr>)"
  by (simp add: validateInventoryData_def validateReviewData_def checkRequiredFields_def)

theorem first_row_keys_suffice_witness:
  "textInventoryRow ''Product'' \<noteq> None \<and> textInventoryRow ''Stock'' \<noteq> None
   \<and> textInventoryRow ''Price'' \<noteq> None
   \<and> validateInventoryData [textInventoryRow, Map.empty, shortReview] = \<lparr> valid = True, errors = [] \<rparr>
   \<and> fullReview ''Date'' \<noteq> None \<and> fullReview ''Rating'' \<noteq> None \<and> fullReview ''Review'' \<noteq> None
   \<and> fullReview ''Product'' \<noteq> None
   \<and> validateReviewData [fullReview, shortReview, Map.empty] = \<lparr> valid = True, errors = [] \<rparr>"
proof -
  have i: "textInventoryRow ''Product'' \<noteq> None \<and> textInventoryRow ''Stock'' \<noteq> None
      \<and> textInventoryRow ''Price'' \<noteq> None"
    by (simp add: textInventoryRow_def)
  have r: "fullReview ''Date'' \<noteq> None \<and> fullReview ''Rating'' \<noteq> None \<and> fullReview ''Review'' \<noteq> None
      \<and> fullReview ''Product'' \<noteq> None"
    by (simp add: fullReview_def)
  from i first_row_keys_suffice [of textInventoryRow "[Map.empty, shortReview]"]
  have "validateInventoryData [textInventoryRow, Map.empty, shortReview] = \<lparr> valid = True, errors = [] \<rparr>"
    by blast
  moreover from r first_row_keys_suffice [of fullReview "[shortReview, Map.empty]"]
  have "validateReviewData [fullReview, shortReview, Map.empty] = \<lparr> valid = True, errors = [] \<rparr>"
    by blast
  ultimately show ?thesis
    using i r by blast
qed

end
